theory Spec2Isabelle
  imports Complex_Main "HOL-Library.Char_ord" "HOL-Library.List_Lexorder"
    "HOL-Library.AList" "HOL-Library.Sublist"
begin

chapter \<open>Model of the logging core\<close>

section \<open>Python strings, dictionaries and slices\<close>

text \<open>
  Strings are byte lists. \<open>str.lower\<close> and \<open>str.upper\<close> are modelled on the ASCII
  letters, which is what they do on the level names, module tags and variable names the
  code handles; other bytes are left alone.
\<close>

definition lower_char :: "char \<Rightarrow> char" where
  "lower_char c =
     (case map_of (zip ''ABCDEFGHIJKLMNOPQRSTUVWXYZ'' ''abcdefghijklmnopqrstuvwxyz'') c of
        None \<Rightarrow> c | Some d \<Rightarrow> d)"

definition upper_char :: "char \<Rightarrow> char" where
  "upper_char c =
     (case map_of (zip ''abcdefghijklmnopqrstuvwxyz'' ''ABCDEFGHIJKLMNOPQRSTUVWXYZ'') c of
        None \<Rightarrow> c | Some d \<Rightarrow> d)"

definition lower :: "string \<Rightarrow> string" where
  "lower s = map lower_char s"

definition upper :: "string \<Rightarrow> string" where
  "upper s = map upper_char s"

text \<open>\<open>str_in p s\<close> is Python's \<open>p in s\<close> on strings: \<open>p\<close> occurs in \<open>s\<close> as a
  contiguous run.\<close>

fun str_in :: "string \<Rightarrow> string \<Rightarrow> bool" where
  "str_in p [] = (p = [])"
| "str_in p (c # cs) = (take (length p) (c # cs) = p \<or> str_in p cs)"

definition startswith :: "string \<Rightarrow> string \<Rightarrow> bool" where
  "startswith s p = (take (length p) s = p)"

text \<open>\<open>dict_get v d\<close> is \<open>entry.get(key, d)\<close> once the key has been looked up
  (\<open>None\<close>: the key is absent).\<close>

definition dict_get :: "'a option \<Rightarrow> 'a \<Rightarrow> 'a" where
  "dict_get v d = (case v of None \<Rightarrow> d | Some x \<Rightarrow> x)"

text \<open>Truthiness of an optional string, as \<open>if x:\<close> tests it.\<close>

definition truthy_str :: "string option \<Rightarrow> bool" where
  "truthy_str x = (case x of None \<Rightarrow> False | Some s \<Rightarrow> s \<noteq> [])"

text \<open>The slices \<open>xs[i:]\<close> and \<open>xs[:i]\<close> for an integer \<open>i\<close>: a negative index counts
  from the end and is clipped at the start of the list.\<close>

definition slice_from :: "int \<Rightarrow> 'a list \<Rightarrow> 'a list" where
  "slice_from i xs =
     (if i < 0 then drop (nat (int (length xs) + i)) xs else drop (nat i) xs)"

definition slice_to :: "int \<Rightarrow> 'a list \<Rightarrow> 'a list" where
  "slice_to i xs =
     (if i < 0 then take (nat (int (length xs) + i)) xs else take (nat i) xs)"

text \<open>Exceptions are values: the flag says whether the raised object is an instance of
  \<open>Exception\<close> (and not only of \<open>BaseException\<close>, as \<open>KeyboardInterrupt\<close> is);
  \<open>type_name\<close> is \<open>type(e).__name__\<close> and \<open>str_of\<close> is \<open>str(e)\<close>.\<close>

datatype exn = Exn (is_Exception: bool) (type_name: string) (str_of: string)

datatype 'a outcome = Returned 'a | Raised exn

text \<open>The values that occur in a log context.\<close>

datatype pyval = PNone | PInt int | PStr string | PDict "(string \<times> pyval) list"


section \<open>Correlation context (\<open>backend/middleware/request_id.py\<close>)\<close>

text \<open>The context variable holds \<open>None\<close> (its default) or the id the middleware bound.
  \<open>get_request_id\<close> is \<open>_request_id_context.get() or 'no-request-id'\<close>.\<close>

definition get_request_id :: "string option \<Rightarrow> string" where
  "get_request_id ctx =
     (case ctx of
        None \<Rightarrow> ''no-request-id''
      | Some rid \<Rightarrow> if rid = [] then ''no-request-id'' else rid)"

text \<open>\<open>RequestIDFilter.filter\<close>: the id the log record carries. The first argument says
  whether the import of the middleware module succeeds.\<close>

definition RequestIDFilter_filter :: "bool \<Rightarrow> string option \<Rightarrow> string" where
  "RequestIDFilter_filter import_ok ctx =
     (if import_ok then get_request_id ctx else ''----'')"


section \<open>Exception context capture (\<open>shared_logging.log_exception_context\<close>)\<close>

definition sensitive_patterns :: "string list" where
  "sensitive_patterns =
     [''password'', ''token'', ''key'', ''secret'', ''credential'', ''auth'']"

definition is_sensitive :: "string \<Rightarrow> bool" where
  "is_sensitive k = list_ex (\<lambda>pattern. str_in pattern (lower k)) sensitive_patterns"

text \<open>The loop over \<open>frame.f_locals.items()\<close>, with \<open>locals_safe\<close> as accumulator.
  \<open>repr v = None\<close> stands for a \<open>repr\<close> that raises.\<close>

fun sanitize_locals ::
  "('v \<Rightarrow> string option) \<Rightarrow> int \<Rightarrow> (string \<times> 'v) list \<Rightarrow> (string \<times> string) list
     \<Rightarrow> (string \<times> string) list" where
  "sanitize_locals repr max_local_repr [] locals_safe = locals_safe"
| "sanitize_locals repr max_local_repr ((k, v) # items) locals_safe =
     (if startswith k ''_'' then sanitize_locals repr max_local_repr items locals_safe
      else if is_sensitive k then
        sanitize_locals repr max_local_repr items (AList.update k ''[REDACTED]'' locals_safe)
      else
        sanitize_locals repr max_local_repr items
          (AList.update k
             (case repr v of
                None \<Rightarrow> ''[repr failed]''
              | Some repr_val \<Rightarrow>
                  if int (length repr_val) > max_local_repr
                  then slice_to max_local_repr repr_val @ ''...[truncated]''
                  else repr_val)
             locals_safe))"

text \<open>One call of a logger method: the level name, the message and the fields passed
  in \<open>extra\<close>.\<close>

record log_call =
  lc_logger :: string
  lc_level :: string
  lc_msg :: string
  lc_span_id :: "string option"
  lc_span_op :: "string option"
  lc_duration_ms :: "real option"
  lc_log_context :: "(string \<times> pyval) list option"
  lc_exc_info :: bool



section \<open>Sink layer and logger registry (\<open>shared_logging.py\<close>)\<close>

text \<open>
  The state the module keeps and configures: its globals \<open>_initialized\<close> and
  \<open>_loggers\<close>, the root logger's level and handlers, the levels and filters of the
  named loggers of the \<open>logging\<close> library, what was printed, and the calls made on
  loggers so far. A logger object is identified by the name \<open>logging.getLogger\<close>
  resolves it from: the library returns one object per name.
\<close>

datatype log_filter = RequestIDFilter | ModuleTagFilter string

datatype formatter = SIMPLE_FORMAT | DETAILED_FORMAT

datatype handler_kind =
    StreamHandler
  | TimedRotatingFileHandler (filename: string) (backupCount: nat)
  | JSONLineHandler

record handler =
  kind :: handler_kind
  h_level :: int
  h_formatter :: "formatter option"
  h_filters :: "log_filter list"

record logging_state =
  initialized :: bool
  loggers :: "(string \<times> string) list"
  root_level :: int
  root_handlers :: "handler list"
  logger_levels :: "(string \<times> int) list"
  logger_filters :: "(string \<times> log_filter list) list"
  stdout :: "string list"
  emitted :: "log_call list"

text \<open>The process at import time: nothing initialised, the root logger at the library's
  default level WARNING.\<close>

definition initial_state :: logging_state where
  "initial_state =
     \<lparr> initialized = False, loggers = [], root_level = 30, root_handlers = [],
       logger_levels = [], logger_filters = [], stdout = [], emitted = [] \<rparr>"

text \<open>
  \<open>getattr(logging, log_level.upper(), logging.INFO)\<close>: the attributes of the
  \<open>logging\<close> module whose names are upper case. Two of them are not levels, and
  \<open>setLevel\<close> raises on them.
\<close>

datatype level_attr = LevelNo int | NotALevel exn

definition logging_attrs :: "(string \<times> level_attr) list" where
  "logging_attrs =
     [(''CRITICAL'', LevelNo 50), (''FATAL'', LevelNo 50), (''ERROR'', LevelNo 40),
      (''WARNING'', LevelNo 30), (''WARN'', LevelNo 30), (''INFO'', LevelNo 20),
      (''DEBUG'', LevelNo 10), (''NOTSET'', LevelNo 0),
      (''BASIC_FORMAT'', NotALevel (Exn True ''ValueError'' ''Unknown level'')),
      (''_STYLES'', NotALevel (Exn True ''TypeError'' ''Level not an integer or a valid string''))]"

definition numeric_level :: "string \<Rightarrow> level_attr" where
  "numeric_level log_level = dict_get (map_of logging_attrs (upper log_level)) (LevelNo 20)"

definition LOG_DIR :: string where
  "LOG_DIR = ''logs''"

definition console_handler :: "int \<Rightarrow> handler" where
  "console_handler lvl =
     \<lparr> kind = StreamHandler, h_level = lvl, h_formatter = Some SIMPLE_FORMAT,
       h_filters = [RequestIDFilter] \<rparr>"

definition main_handler :: handler where
  "main_handler =
     \<lparr> kind = TimedRotatingFileHandler ''application.log'' 30, h_level = 20,
       h_formatter = Some DETAILED_FORMAT, h_filters = [RequestIDFilter] \<rparr>"

definition error_handler :: handler where
  "error_handler =
     \<lparr> kind = TimedRotatingFileHandler ''application_errors.log'' 90, h_level = 40,
       h_formatter = Some DETAILED_FORMAT, h_filters = [RequestIDFilter] \<rparr>"

definition json_handler :: handler where
  "json_handler =
     \<lparr> kind = JSONLineHandler, h_level = 20, h_formatter = None,
       h_filters = [RequestIDFilter] \<rparr>"

text \<open>\<open>logging.getLogger(n).setLevel(logging.WARNING)\<close> for the five library
  loggers.\<close>

definition quiet_external :: "(string \<times> int) list \<Rightarrow> (string \<times> int) list" where
  "quiet_external lv =
     fold (\<lambda>n. AList.update n 30)
       [''httpx'', ''httpcore'', ''urllib3'', ''uvicorn.access'', ''uvicorn.error''] lv"

definition setup_centralized_logging ::
  "string \<Rightarrow> bool \<Rightarrow> logging_state \<Rightarrow> unit outcome \<times> logging_state" where
  "setup_centralized_logging log_level console_output s =
     (if initialized s then (Returned (), s)
      else
        (case numeric_level log_level of
           NotALevel e \<Rightarrow> (Raised e, s)
         | LevelNo n \<Rightarrow>
             (Returned (),
              s \<lparr> root_level := n,
                  root_handlers :=
                    (if console_output then [console_handler n] else [])
                    @ [main_handler, error_handler, json_handler],
                  logger_levels := quiet_external (logger_levels s),
                  initialized := True,
                  stdout := stdout s @
                    [''Centralized logging initialized (with AI debug features) | Log directory: ''
                     @ LOG_DIR] \<rparr>)))"

text \<open>\<open>logging.getLogger(name)\<close>: the empty name and the name \<open>root\<close> both give the
  root logger.\<close>

definition getLogger :: "string \<Rightarrow> string" where
  "getLogger name = (if name = [] \<or> name = ''root'' then ''root'' else name)"

text \<open>\<open>logger.addFilter(f)\<close>: \<open>f\<close> is a fresh object, so it is appended.\<close>

definition addFilter ::
  "string \<Rightarrow> log_filter \<Rightarrow> (string \<times> log_filter list) list \<Rightarrow> (string \<times> log_filter list) list" where
  "addFilter lg f fs = AList.update lg (dict_get (map_of fs lg) [] @ [f]) fs"

definition get_logger ::
  "string \<Rightarrow> string \<Rightarrow> logging_state \<Rightarrow> string outcome \<times> logging_state" where
  "get_logger name module_tag s =
     (case (if \<not> initialized s then setup_centralized_logging ''INFO'' True s
            else (Returned (), s)) of
        (Raised e, s1) \<Rightarrow> (Raised e, s1)
      | (Returned u, s1) \<Rightarrow>
          (let logger_key = module_tag @ '':'' @ name in
           case map_of (loggers s1) logger_key of
             Some cached \<Rightarrow> (Returned cached, s1)
           | None \<Rightarrow>
               (let logger = getLogger name in
                (Returned logger,
                 s1 \<lparr> logger_filters :=
                        addFilter logger (ModuleTagFilter module_tag) (logger_filters s1),
                      loggers := AList.update logger_key logger (loggers s1) \<rparr>))))"

definition get_frontend_logger :: "string \<Rightarrow> logging_state \<Rightarrow> string outcome \<times> logging_state" where
  "get_frontend_logger name s = get_logger name ''FRONTEND'' s"

text \<open>
  \<open>ModuleTagFilter.filter\<close> sets \<open>record.module_tag\<close>; the filters of the logger a
  record is logged on run in the order they were added, each returning \<open>True\<close>.
  \<open>record_module_tag s lg\<close> is the tag a record logged on \<open>lg\<close> in state \<open>s\<close>
  leaves the logger with (\<open>None\<close>: the attribute is not set).
\<close>

definition apply_filter :: "log_filter \<Rightarrow> string option \<Rightarrow> string option" where
  "apply_filter f tag = (case f of ModuleTagFilter m \<Rightarrow> Some m | RequestIDFilter \<Rightarrow> tag)"

definition record_module_tag :: "logging_state \<Rightarrow> string \<Rightarrow> string option" where
  "record_module_tag s lg = fold apply_filter (dict_get (map_of (logger_filters s) lg) []) None"


section \<open>Operation spans (\<open>shared_logging.log_span\<close>)\<close>






text \<open>\<open>if logger is None: logger = get_logger(__name__, module='SPAN')\<close>.\<close>

definition resolve_logger :: "string option \<Rightarrow> logging_state \<Rightarrow> string outcome \<times> logging_state" where
  "resolve_logger logger_arg s =
     (case logger_arg of
        None \<Rightarrow> get_logger ''shared_logging'' ''SPAN'' s
      | Some lg \<Rightarrow> (Returned lg, s))"



section \<open>Persisted records and the query engine (backend/main.py)\<close>

text \<open>
  A decoded line of the JSON-lines file: the keys the readers look at, with the types
  \<open>JSONLineHandler.emit\<close> writes them with (\<open>None\<close>: the key is absent). The field
  \<open>exception\<close> is \<open>Some t\<close> when the record has an exception object, \<open>t\<close> being its
  \<open>type\<close>. The other keys of a line ride in the record's extension.
  Decoding itself, \<open>json.loads(line.strip())\<close>, is a parameter \<open>loads\<close> of the
  readers; \<open>loads line = None\<close> stands for \<open>JSONDecodeError\<close>. A line that
  decodes to a value that is no object, or to an object whose fields have other types,
  is not covered: the readers raise on it where they read such a field.
\<close>

record entry =
  ts :: "string option"
  level :: "string option"
  module :: "string option"
  request_id :: "string option"
  msg :: "string option"
  span_op :: "string option"
  duration_ms :: "real option"
  exception :: "string option option"

text \<open>The query parameters of \<open>GET /api/debug/logs\<close>.\<close>

record query =
  q_last :: int
  q_level :: "string option"
  q_request_id :: "string option"
  q_module :: "string option"
  q_search :: "string option"
  q_since_minutes :: "int option"
  q_include_summary :: bool

text \<open>\<open>utc_minus m\<close> is the text of
  \<open>(datetime.utcnow() - timedelta(minutes=m)).isoformat()\<close>.\<close>

definition cutoff_time :: "(int \<Rightarrow> string) \<Rightarrow> int option \<Rightarrow> string option" where
  "cutoff_time utc_minus since_minutes =
     (case since_minutes of
        None \<Rightarrow> None
      | Some m \<Rightarrow> if m \<noteq> 0 then Some (utc_minus m @ ''Z'') else None)"

text \<open>The five \<open>if ...: continue\<close> tests of the loop body, in their order.\<close>

definition passes_filters :: "string option \<Rightarrow> query \<Rightarrow> entry \<Rightarrow> bool" where
  "passes_filters cutoff q e =
     (if (case cutoff of None \<Rightarrow> False | Some c \<Rightarrow> c \<noteq> [] \<and> dict_get (ts e) [] < c)
      then False
      else if truthy_str (q_level q)
              \<and> upper (dict_get (level e) []) \<noteq> upper (dict_get (q_level q) [])
      then False
      else if truthy_str (q_request_id q)
              \<and> \<not> str_in (dict_get (q_request_id q) []) (dict_get (request_id e) [])
      then False
      else if truthy_str (q_module q)
              \<and> upper (dict_get (module e) []) \<noteq> upper (dict_get (q_module q) [])
      then False
      else if truthy_str (q_search q)
              \<and> \<not> str_in (lower (dict_get (q_search q) [])) (lower (dict_get (msg e) []))
      then False
      else True)"

text \<open>The loop \<open>for line in reversed(lines)\<close>, given the lines still to visit and the
  list \<open>logs\<close> built so far.\<close>

fun collect_logs ::
  "(string \<Rightarrow> entry option) \<Rightarrow> string option \<Rightarrow> query \<Rightarrow> string list \<Rightarrow> entry list
     \<Rightarrow> entry list" where
  "collect_logs loads cutoff q [] logs = logs"
| "collect_logs loads cutoff q (line # rest) logs =
     (if int (length logs) \<ge> q_last q then logs
      else
        (case loads line of
           None \<Rightarrow> collect_logs loads cutoff q rest logs
         | Some e \<Rightarrow>
             if passes_filters cutoff q e
             then collect_logs loads cutoff q rest (logs @ [e])
             else collect_logs loads cutoff q rest logs))"

record error_summary =
  err_ts :: "string option"
  err_msg :: string
  err_module :: "string option"
  err_request_id :: "string option"
  err_exception :: "string option"

record slow_operation =
  slow_ts :: "string option"
  slow_operation :: "string option"
  slow_duration_ms :: real
  slow_request_id :: "string option"

record log_summary =
  total_entries :: nat
  level_distribution :: "(string \<times> nat) list"
  module_distribution :: "(string \<times> nat) list"
  unique_requests :: nat
  error_count :: nat
  recent_errors :: "error_summary list"
  slow_operations :: "slow_operation list"
  time_range_oldest :: "string option"
  time_range_newest :: "string option"

text \<open>\<open>counts[k] += 1\<close> on a \<open>defaultdict(int)\<close>.\<close>

definition bump :: "string \<Rightarrow> (string \<times> nat) list \<Rightarrow> (string \<times> nat) list" where
  "bump k counts = AList.update k (dict_get (map_of counts k) 0 + 1) counts"

text \<open>The ids collected in the set \<open>request_ids\<close>.\<close>

definition request_ids :: "entry list \<Rightarrow> string list" where
  "request_ids logs =
     remdups (map (\<lambda>rcd. dict_get (request_id rcd) [])
                (filter (\<lambda>rcd. truthy_str (request_id rcd) \<and> request_id rcd \<noteq> Some ''----'')
                   logs))"

definition error_of :: "entry \<Rightarrow> error_summary" where
  "error_of rcd =
     \<lparr> err_ts = ts rcd, err_msg = slice_to 200 (dict_get (msg rcd) []),
       err_module = module rcd, err_request_id = request_id rcd,
       err_exception = (case exception rcd of None \<Rightarrow> None | Some t \<Rightarrow> t) \<rparr>"

definition is_slow :: "entry \<Rightarrow> bool" where
  "is_slow rcd = (case duration_ms rcd of None \<Rightarrow> False | Some d \<Rightarrow> d \<noteq> 0 \<and> d > 1000)"

definition slow_of :: "entry \<Rightarrow> slow_operation" where
  "slow_of rcd =
     \<lparr> slow_ts = ts rcd, slow_operation = span_op rcd,
       slow_duration_ms = dict_get (duration_ms rcd) 0, slow_request_id = request_id rcd \<rparr>"

text \<open>
  \<open>_generate_log_summary\<close>. Its one loop fills five independent accumulators; each is
  written here as its own pass over \<open>logs\<close>. The descending sort is stable, as
  \<open>sorted(..., reverse=True)\<close> is.
\<close>

definition generate_log_summary :: "entry list \<Rightarrow> log_summary" where
  "generate_log_summary logs =
     (let errors = map error_of (filter (\<lambda>rcd. level rcd = Some ''ERROR'') logs);
          slow = map slow_of (filter is_slow logs)
      in \<lparr> total_entries = length logs,
           level_distribution =
             fold (\<lambda>rcd. bump (dict_get (level rcd) ''UNKNOWN'')) logs [],
           module_distribution =
             fold (\<lambda>rcd. bump (dict_get (module rcd) ''UNKNOWN'')) logs [],
           unique_requests = length (request_ids logs),
           error_count = length errors,
           recent_errors = slice_to 5 errors,
           slow_operations = slice_to 5 (sort_key (\<lambda>x. - slow_duration_ms x) slow),
           time_range_oldest = (case logs of [] \<Rightarrow> None | rcd # rest \<Rightarrow> ts rcd),
           time_range_newest = (if logs = [] then None else ts (last logs)) \<rparr>)"

text \<open>The body of a response of \<open>get_debug_logs\<close> (the echo of the filters is left
  out). \<open>file = None\<close>: the JSON-lines file does not exist.\<close>

record response =
  resp_logs :: "entry list"
  resp_count :: nat
  resp_message :: "string option"
  resp_summary :: "log_summary option"

definition get_debug_logs ::
  "(string \<Rightarrow> entry option) \<Rightarrow> (int \<Rightarrow> string) \<Rightarrow> string list option \<Rightarrow> query \<Rightarrow> response" where
  "get_debug_logs loads utc_minus file q =
     (case file of
        None \<Rightarrow>
          \<lparr> resp_logs = [], resp_count = 0, resp_message = Some ''No logs found'',
            resp_summary = None \<rparr>
      | Some lines \<Rightarrow>
          (let cutoff = cutoff_time utc_minus (q_since_minutes q);
               found = rev (collect_logs loads cutoff q (rev lines) [])
           in \<lparr> resp_logs = found, resp_count = length found, resp_message = None,
                resp_summary = (if q_include_summary q \<and> found \<noteq> []
                                then Some (generate_log_summary found) else None) \<rparr>))"

text \<open>The timestamp a reader compares, \<open>entry.get('ts', '')\<close>, and the order of a list
  of records by it.\<close>

definition ts_of :: "entry \<Rightarrow> string" where
  "ts_of e = dict_get (ts e) []"


text \<open>The records of a file, in file order: the lines that decode.\<close>

definition decoded :: "(string \<Rightarrow> entry option) \<Rightarrow> string list \<Rightarrow> entry list" where
  "decoded loads lines = List.map_filter loads lines"


section \<open>Diagnostic summary (\<open>logs/ai_debug_summary.py\<close>)\<close>

text \<open>\<open>parse_logs\<close>, given the cutoff string it computes from the clock.\<close>

fun parse_lines ::
  "(string \<Rightarrow> entry option) \<Rightarrow> string \<Rightarrow> bool \<Rightarrow> string list \<Rightarrow> entry list" where
  "parse_lines loads cutoff_str errors_only [] = []"
| "parse_lines loads cutoff_str errors_only (line # rest) =
     (case loads line of
        None \<Rightarrow> parse_lines loads cutoff_str errors_only rest
      | Some e \<Rightarrow>
          if dict_get (ts e) [] \<ge> cutoff_str
          then (if errors_only \<and> level e \<noteq> Some ''ERROR''
                then parse_lines loads cutoff_str errors_only rest
                else e # parse_lines loads cutoff_str errors_only rest)
          else parse_lines loads cutoff_str errors_only rest)"

definition parse_logs ::
  "(string \<Rightarrow> entry option) \<Rightarrow> string \<Rightarrow> bool \<Rightarrow> string list option \<Rightarrow> entry list" where
  "parse_logs loads cutoff_str errors_only file =
     (case file of None \<Rightarrow> [] | Some lines \<Rightarrow> parse_lines loads cutoff_str errors_only lines)"

text \<open>\<open>analyze_errors(logs)['total_errors']\<close>.\<close>

definition total_errors :: "entry list \<Rightarrow> nat" where
  "total_errors logs = length (filter (\<lambda>rcd. level rcd = Some ''ERROR'') logs)"

text \<open>Decimal digits of a natural number.\<close>

function show_nat :: "nat \<Rightarrow> string" where
  "show_nat n =
     (if n < 10 then [''0123456789'' ! n]
      else show_nat (n div 10) @ [''0123456789'' ! (n mod 10)])"
  by pat_completeness auto
termination
  by (relation "measure id") auto

declare show_nat.simps [simp del]

text \<open>
  \<open>f"{error_rate:.1%}"\<close> for a rate that is not negative: the rate times 100, rounded
  to one decimal. The rate is kept as an exact fraction; the float the code divides
  into differs from it by less than the thresholds and the rounding can see, for any
  number of records a file can hold, except at an exact tie of the rounding.
\<close>

definition round_half_even :: "rat \<Rightarrow> int" where
  "round_half_even x =
     (let f = \<lfloor>x\<rfloor>; d = x - of_int f
      in if d < 1 / 2 then f else if d > 1 / 2 then f + 1 else if even f then f else f + 1)"

definition format_percent1 :: "rat \<Rightarrow> string" where
  "format_percent1 x =
     (let t = nat (round_half_even (x * 1000))
      in show_nat (t div 10) @ ''.'' @ show_nat (t mod 10) @ ''%'')"

text \<open>\<open>error_rate = error_analysis['total_errors'] / len(logs) if logs else 0\<close>.\<close>

definition error_rate_of :: "entry list \<Rightarrow> rat" where
  "error_rate_of logs =
     (if logs \<noteq> [] then of_nat (total_errors logs) / of_nat (length logs) else 0)"

datatype debug_summary =
    NO_LOGS (log_file_exists: bool)
  | Summary (status: string) (total_logs: nat) (overview_unique_requests: nat)
      (error_rate: string) (summary_total_errors: nat)
  where
    "status (NO_LOGS b) = ''NO_LOGS''"

text \<open>
  \<open>generate_summary(hours)\<close>: the status and the overview. \<open>utc_minus_hours h\<close> is the
  text of \<open>(datetime.utcnow() - timedelta(hours=h)).isoformat()\<close>. The error,
  performance and suggestion sections of the dictionary do not enter the status and are
  left out.
\<close>

definition generate_summary ::
  "(string \<Rightarrow> entry option) \<Rightarrow> (int \<Rightarrow> string) \<Rightarrow> string list option \<Rightarrow> int \<Rightarrow> debug_summary" where
  "generate_summary loads utc_minus_hours file hours =
     (let logs = parse_logs loads (utc_minus_hours hours @ ''Z'') False file
      in if logs = [] then NO_LOGS (file \<noteq> None)
         else
           (let rate = error_rate_of logs;
                health =
                  (if rate > 1 / 10 then ''CRITICAL''
                   else if rate > 5 / 100 then ''WARNING''
                   else if total_errors logs > 0 then ''DEGRADED''
                   else ''HEALTHY'')
            in Summary health (length logs) (length (request_ids logs))
                 (format_percent1 rate) (total_errors logs)))"


section \<open>Command-line viewer (\<open>logs/view_logs.py\<close>)\<close>

definition should_include ::
  "string option \<Rightarrow> string option \<Rightarrow> string option \<Rightarrow> entry \<Rightarrow> bool" where
  "should_include level_arg request_id_arg search_arg e =
     (if truthy_str level_arg
         \<and> upper (dict_get (level e) []) \<noteq> upper (dict_get level_arg [])
      then False
      else if truthy_str request_id_arg
              \<and> \<not> str_in (dict_get request_id_arg []) (dict_get (request_id e) [])
      then False
      else if truthy_str search_arg
              \<and> \<not> str_in (lower (dict_get search_arg [])) (lower (dict_get (msg e) []))
      then False
      else True)"

text \<open>What the viewer prints: the message for a missing file, or one formatted line
  per entry.\<close>

datatype printed = NotFound | Formatted entry

text \<open>The entries the loop over \<open>all_lines[-lines * 2:]\<close> appends.\<close>

definition included_entries ::
  "(string \<Rightarrow> entry option) \<Rightarrow> string option \<Rightarrow> string option \<Rightarrow> string option
     \<Rightarrow> string list \<Rightarrow> entry list" where
  "included_entries loads level_arg request_id_arg search_arg window =
     filter (should_include level_arg request_id_arg search_arg) (List.map_filter loads window)"

text \<open>\<open>view_json_logs\<close> with \<open>follow = False\<close>.\<close>

definition view_json_logs ::
  "(string \<Rightarrow> entry option) \<Rightarrow> string list option \<Rightarrow> int \<Rightarrow> string option \<Rightarrow> string option
     \<Rightarrow> string option \<Rightarrow> printed list" where
  "view_json_logs loads file lines level_arg request_id_arg search_arg =
     (case file of
        None \<Rightarrow> [NotFound]
      | Some all_lines \<Rightarrow>
          (let entries =
                 included_entries loads level_arg request_id_arg search_arg
                   (slice_from (- lines * 2) all_lines)
           in map Formatted (slice_from (- lines) entries)))"


section \<open>Example inputs\<close>



text \<open>Records with a timestamp, a level and a message, and nothing else.\<close>

definition example_entry :: "string \<Rightarrow> string \<Rightarrow> string \<Rightarrow> entry" where
  "example_entry t l m =
     \<lparr> ts = Some t, level = Some l, module = None, request_id = None, msg = Some m,
       span_op = None, duration_ms = None, exception = None \<rparr>"

text \<open>A decoder for lines of the shape \<open>level timestamp\<close> standing for the JSON object
  with these two keys and the message \<open>m\<close>; any other line does not decode.\<close>

definition example_loads :: "string \<Rightarrow> entry option" where
  "example_loads line =
     (if line = ''E1'' then Some (example_entry ''1'' ''ERROR'' ''m'')
      else if line = ''E2'' then Some (example_entry ''2'' ''ERROR'' ''m'')
      else if line = ''I3'' then Some (example_entry ''3'' ''INFO'' ''m'')
      else if line = ''I4'' then Some (example_entry ''4'' ''INFO'' ''m'')
      else None)"

text \<open>A clock whose cutoffs come before the timestamps of the example records.\<close>

definition example_utc_minus :: "int \<Rightarrow> string" where
  "example_utc_minus m = ''0001-01-01T00:00:00''"

definition example_query :: "int \<Rightarrow> query" where
  "example_query n =
     \<lparr> q_last = n, q_level = None, q_request_id = None, q_module = None, q_search = None,
       q_since_minutes = None, q_include_summary = False \<rparr>"


chapter \<open>Properties\<close>

section \<open>Strings\<close>

lemma str_in_sublist: "str_in p s \<longleftrightarrow> sublist p s"
proof (induction s)
  case Nil
  then show ?case by simp
next
  case (Cons c cs)
  have "take (length p) (c # cs) = p \<longleftrightarrow> prefix p (c # cs)"
    by (metis append_eq_conv_conj prefix_def)
  with Cons show ?case
    by (simp add: sublist_Cons_right)
qed

section \<open>Correlation context\<close>

text \<open>
  C1. Where no correlation id has been set, \<open>get_request_id\<close> returns the string
  \<open>no-request-id\<close>, which is not the sentinel \<open>----\<close>; a record filtered while the
  middleware module is importable carries that string as its request id.
\<close>

theorem get_request_id_unset:
  "get_request_id None = ''no-request-id'' \<and> get_request_id None \<noteq> ''----''
   \<and> RequestIDFilter_filter True None = ''no-request-id''"
  by (simp add: get_request_id_def RequestIDFilter_filter_def)

section \<open>Exception context capture\<close>



text \<open>A variable whose name starts with an underscore never enters \<open>locals_safe\<close>.\<close>

lemma sanitize_locals_skips_private:
  "startswith k ''_''
   \<Longrightarrow> map_of (sanitize_locals repr m items locals_safe) k = map_of locals_safe k"
proof (induction items arbitrary: locals_safe)
  case Nil
  then show ?case by simp
next
  case (Cons kv items)
  obtain k' v' where kv: "kv = (k', v')" by (cases kv)
  show ?case
    using Cons.prems unfolding kv
    by (auto simp: update_conv' Cons.IH)
qed






section \<open>Sink layer and logger registry\<close>

lemma setup_raises_unchanged:
  "setup_centralized_logging l c s = (Raised e, s1) \<Longrightarrow> s1 = s \<and> \<not> initialized s"
  by (auto simp: setup_centralized_logging_def split: if_splits level_attr.splits)

lemma setup_returns_initialized:
  "setup_centralized_logging l c s = (Returned u, s1) \<Longrightarrow> initialized s1"
  by (auto simp: setup_centralized_logging_def split: if_splits level_attr.splits)

lemma setup_default_returns:
  "\<exists>s1. setup_centralized_logging ''INFO'' True s = (Returned (), s1) \<and> initialized s1
     \<and> emitted s1 = emitted s \<and> loggers s1 = loggers s \<and> logger_filters s1 = logger_filters s"
  by (simp add: setup_centralized_logging_def numeric_level_def logging_attrs_def upper_def
      upper_char_def dict_get_def)

text \<open>A level name that resolves to an attribute that is no level makes the call raise,
  and the state stays uninitialised.\<close>

lemma setup_bad_level_raises:
  "setup_centralized_logging ''basic_format'' True initial_state
     = (Raised (Exn True ''ValueError'' ''Unknown level''), initial_state)"
  by (simp add: setup_centralized_logging_def numeric_level_def logging_attrs_def upper_def
      upper_char_def dict_get_def initial_state_def)

text \<open>
  C5. After a call of \<open>setup_centralized_logging\<close> that returned, a second call with any
  arguments returns and leaves the state as it is. The first call, made on an
  uninitialised state, installs one handler per sink: the console handler when asked
  for, then the two rotating files and the JSON-lines handler, no two of the same kind.
\<close>

theorem setup_centralized_logging_idempotent:
  assumes "setup_centralized_logging log_level console_output s = (Returned (), s1)"
  shows "setup_centralized_logging log_level' console_output' s1 = (Returned (), s1)
    \<and> (\<not> initialized s \<longrightarrow>
         map kind (root_handlers s1) =
           (if console_output then [StreamHandler] else []) @
           [TimedRotatingFileHandler ''application.log'' 30,
            TimedRotatingFileHandler ''application_errors.log'' 90, JSONLineHandler]
         \<and> distinct (map kind (root_handlers s1)))"
proof -
  have "initialized s1" using assms by (rule setup_returns_initialized)
  then have "setup_centralized_logging log_level' console_output' s1 = (Returned (), s1)"
    by (simp add: setup_centralized_logging_def)
  moreover have "\<not> initialized s \<longrightarrow>
         map kind (root_handlers s1) =
           (if console_output then [StreamHandler] else []) @
           [TimedRotatingFileHandler ''application.log'' 30,
            TimedRotatingFileHandler ''application_errors.log'' 90, JSONLineHandler]
         \<and> distinct (map kind (root_handlers s1))"
    using assms
    by (auto simp: setup_centralized_logging_def console_handler_def main_handler_def
        error_handler_def json_handler_def split: level_attr.splits)
  ultimately show ?thesis by blast
qed

theorem setup_centralized_logging_idempotent_witness:
  "setup_centralized_logging ''DEBUG'' False
     (snd (setup_centralized_logging ''INFO'' True initial_state))
   = (Returned (), snd (setup_centralized_logging ''INFO'' True initial_state))
   \<and> map kind (root_handlers (snd (setup_centralized_logging ''INFO'' True initial_state)))
     = [StreamHandler, TimedRotatingFileHandler ''application.log'' 30,
        TimedRotatingFileHandler ''application_errors.log'' 90, JSONLineHandler]"
proof -
  have r: "fst (setup_centralized_logging ''INFO'' True initial_state) = Returned ()"
    by (simp add: setup_centralized_logging_def numeric_level_def logging_attrs_def upper_def
      upper_char_def dict_get_def initial_state_def)
  have h: "setup_centralized_logging ''INFO'' True initial_state
       = (Returned (), snd (setup_centralized_logging ''INFO'' True initial_state))"
    using r by (metis prod.collapse)
  have i: "\<not> initialized initial_state" by (simp add: initial_state_def)
  show ?thesis
    using setup_centralized_logging_idempotent[OF h, of "''DEBUG''" False] i by simp
qed

lemma get_logger_returns:
  "\<exists>lg s1. get_logger name module_tag s = (Returned lg, s1) \<and> emitted s1 = emitted s
     \<and> initialized s1"
proof (cases "initialized s")
  case True
  then show ?thesis
    by (simp add: get_logger_def Let_def split: option.splits)
next
  case False
  obtain s0 where s0: "setup_centralized_logging ''INFO'' True s = (Returned (), s0)"
     "initialized s0" "emitted s0 = emitted s"
    using setup_default_returns by blast
  with False show ?thesis
    by (simp add: get_logger_def Let_def split: option.splits)
qed

text \<open>A second acquisition under the same name and module tag returns the cached handle
  and changes nothing; a handle once cached stays cached.\<close>

lemma get_logger_cached:
  assumes "get_logger name module_tag s = (Returned lg, s1)"
  shows "get_logger name module_tag s1 = (Returned lg, s1)"
proof -
  have i: "initialized s1"
    using assms
    by (auto simp: get_logger_def Let_def setup_centralized_logging_def
        split: if_splits level_attr.splits option.splits prod.splits outcome.splits)
  have "map_of (loggers s1) (module_tag @ '':'' @ name) = Some lg"
    using assms
    by (auto simp: get_logger_def Let_def update_conv'
        split: if_splits option.splits prod.splits outcome.splits)
  with i show ?thesis by (simp add: get_logger_def)
qed

lemma get_logger_keeps_cache:
  assumes "get_logger name' module_tag' s = (Returned lg', s1)"
    and "initialized s"
    and "map_of (loggers s) key = Some lg"
  shows "map_of (loggers s1) key = Some lg"
  using assms
  by (auto simp: get_logger_def Let_def update_conv' split: if_splits option.splits)

text \<open>
  C8 at the two acquisitions backend/main.py makes under its own name. The handle got
  with the tag \<open>BACKEND\<close> and the one got afterwards with the tag \<open>FRONTEND\<close> are the
  same logger; a record logged through the first handle carries \<open>BACKEND\<close> before the
  second acquisition and \<open>FRONTEND\<close> after it.
\<close>

theorem get_logger_shared_by_name:
  "(case get_logger ''backend.main'' ''BACKEND'' initial_state of
      (Returned backend, s1) \<Rightarrow>
        (case get_frontend_logger ''backend.main'' s1 of
           (Returned frontend, s2) \<Rightarrow>
             backend = frontend
             \<and> record_module_tag s1 backend = Some ''BACKEND''
             \<and> record_module_tag s2 backend = Some ''FRONTEND''
         | (Raised e, s2) \<Rightarrow> False)
    | (Raised e, s1) \<Rightarrow> False)"
  by code_simp


section \<open>Operation spans\<close>

lemma resolve_logger_returns:
  "\<exists>lg s1. resolve_logger logger_arg s = (Returned lg, s1) \<and> emitted s1 = emitted s"
  using get_logger_returns[of "''shared_logging''" "''SPAN''" s]
  by (cases logger_arg) (auto simp: resolve_logger_def)

lemma merged_context:
  "map_of (AList.update ''error_type'' (PStr t) (AList.update ''error'' (PStr m) context)) k
     = (if k = ''error_type'' then Some (PStr t) else if k = ''error'' then Some (PStr m)
        else map_of context k)"
  by (simp add: update_conv')




section \<open>Query engine\<close>


















text \<open>What the limit cuts, it cuts with or without the malformed line: with
  \<open>last = 1\<close> the first record is left out of both responses.\<close>

lemma limit_cuts_without_malformed_line:
  "resp_logs (get_debug_logs example_loads example_utc_minus
        (Some [''E1'', ''not json'', ''E2'']) (example_query 1))
     = [example_entry ''2'' ''ERROR'' ''m'']
   \<and> resp_logs (get_debug_logs example_loads example_utc_minus
        (Some [''E1'', ''E2'']) (example_query 1))
     = [example_entry ''2'' ''ERROR'' ''m'']"
  by (simp add: get_debug_logs_def example_loads_def passes_filters_def example_query_def
      cutoff_time_def truthy_str_def)


section \<open>Log summary\<close>

text \<open>\<open>recent_errors\<close> is the first five of the error records, in the order of the
  list.\<close>

lemma recent_errors_oldest:
  "recent_errors (generate_log_summary logs)
     = take 5 (map error_of (filter (\<lambda>rcd. level rcd = Some ''ERROR'') logs))"
  by (simp add: generate_log_summary_def Let_def slice_to_def)

text \<open>
  C7 on six ERROR records, oldest first, with timestamps 1 to 6: \<open>recent_errors\<close> holds
  the records 1 to 5, the five oldest; the most recent one, 6, is not among them.
\<close>

theorem recent_errors_are_oldest:
  "map err_ts (recent_errors (generate_log_summary
      (map (\<lambda>t. example_entry t ''ERROR'' ''m'') [''1'', ''2'', ''3'', ''4'', ''5'', ''6''])))
   = [Some ''1'', Some ''2'', Some ''3'', Some ''4'', Some ''5'']"
  by (simp add: recent_errors_oldest example_entry_def error_of_def)


section \<open>Diagnostic summary\<close>

lemma format_percent1_12: "format_percent1 (12 / 100) = ''12.0%''"
  by code_simp

lemma status_Summary: "status (Summary h n u r e) = h"
  by simp

text \<open>The status and the rate string of a non-empty window, by the rate the function
  computes.\<close>

lemma generate_summary_by_rate:
  assumes "parse_logs loads (utc_minus_hours hours @ ''Z'') False file = logs"
    and "logs \<noteq> []"
  shows "(error_rate_of logs > 1 / 10 \<longrightarrow>
            status (generate_summary loads utc_minus_hours file hours) = ''CRITICAL'')
    \<and> (1 / 20 < error_rate_of logs \<and> error_rate_of logs \<le> 1 / 10 \<longrightarrow>
            status (generate_summary loads utc_minus_hours file hours) = ''WARNING'')
    \<and> (0 < error_rate_of logs \<and> error_rate_of logs \<le> 1 / 20 \<longrightarrow>
            status (generate_summary loads utc_minus_hours file hours) = ''DEGRADED'')
    \<and> (error_rate_of logs = 0 \<longrightarrow>
            status (generate_summary loads utc_minus_hours file hours) = ''HEALTHY'')
    \<and> error_rate_of logs = of_nat (total_errors logs) / of_nat (length logs)
    \<and> (length logs = 100 \<and> total_errors logs = 12 \<longrightarrow>
            error_rate (generate_summary loads utc_minus_hours file hours) = ''12.0%''
          \<and> status (generate_summary loads utc_minus_hours file hours) = ''CRITICAL'')"
proof -
  let ?rate = "error_rate_of logs"
  have g: "generate_summary loads utc_minus_hours file hours
      = Summary (if ?rate > 1 / 10 then ''CRITICAL''
                 else if ?rate > 5 / 100 then ''WARNING''
                 else if total_errors logs > 0 then ''DEGRADED'' else ''HEALTHY'')
          (length logs) (length (request_ids logs)) (format_percent1 ?rate) (total_errors logs)"
    using assms by (simp add: generate_summary_def Let_def)
  have r: "?rate = of_nat (total_errors logs) / of_nat (length logs)"
    using assms(2) by (simp add: error_rate_of_def)
  have pos: "(0 < ?rate) = (total_errors logs > 0)"
    using assms(2) by (simp add: r zero_less_divide_iff)
  have z: "(?rate = 0) = (total_errors logs = 0)"
    using assms(2) by (simp add: r)
  have 1: "?rate > 1 / 10 \<longrightarrow>
            status (generate_summary loads utc_minus_hours file hours) = ''CRITICAL''"
    unfolding g by simp
  have 2: "1 / 20 < ?rate \<and> ?rate \<le> 1 / 10 \<longrightarrow>
            status (generate_summary loads utc_minus_hours file hours) = ''WARNING''"
    unfolding g by simp
  have 3: "0 < ?rate \<and> ?rate \<le> 1 / 20 \<longrightarrow>
            status (generate_summary loads utc_minus_hours file hours) = ''DEGRADED''"
    unfolding g using pos by simp
  have 4: "?rate = 0 \<longrightarrow>
            status (generate_summary loads utc_minus_hours file hours) = ''HEALTHY''"
    unfolding g using z pos by auto
  have 5: "length logs = 100 \<and> total_errors logs = 12 \<longrightarrow>
            error_rate (generate_summary loads utc_minus_hours file hours) = ''12.0%''
          \<and> status (generate_summary loads utc_minus_hours file hours) = ''CRITICAL''"
  proof
    assume a: "length logs = 100 \<and> total_errors logs = 12"
    then have rr: "?rate = 12 / 100" by (simp add: r)
    have e: "error_rate (generate_summary loads utc_minus_hours file hours)
               = format_percent1 ?rate"
      unfolding g by simp
    have "?rate > 1 / 10" unfolding rr by simp
    with 1 have s: "status (generate_summary loads utc_minus_hours file hours) = ''CRITICAL''"
      by blast
    from e s show "error_rate (generate_summary loads utc_minus_hours file hours) = ''12.0%''
          \<and> status (generate_summary loads utc_minus_hours file hours) = ''CRITICAL''"
      by (simp only: rr format_percent1_12)
  qed
  from 1 2 3 4 r 5 show ?thesis by (intro conjI)
qed

text \<open>The window \<open>parse_logs\<close> returns: the decoded records whose timestamp is not
  before the cutoff, in file order.\<close>

lemma parse_lines_window:
  "parse_lines loads cutoff_str False lines
     = filter (\<lambda>rcd. cutoff_str \<le> ts_of rcd) (decoded loads lines)"
  by (induction lines) (auto simp: decoded_def ts_of_def split: option.splits)

lemma parse_lines_replicate_keep:
  "loads l = Some e \<Longrightarrow> c \<le> dict_get (ts e) [] \<Longrightarrow>
   parse_lines loads c False (replicate n l @ rest) = replicate n e @ parse_lines loads c False rest"
  by (induction n) auto

text \<open>
  C6. Let the window be the decoded records of the file whose timestamp is not before
  the cutoff, and let it hold at least one record. The rate is the number of records
  of the window whose level is ERROR over the number of its records. Above 10 percent
  the status is CRITICAL, above 5 and at most 10 percent WARNING, above 0 and at most
  5 percent DEGRADED, and at 0 HEALTHY. A window of 100 records with 12 ERROR records
  has the error rate \<open>12.0%\<close> and the status CRITICAL.
\<close>

theorem generate_summary_health:
  assumes "filter (\<lambda>rcd. utc_minus_hours hours @ ''Z'' \<le> ts_of rcd) (decoded loads lines) \<noteq> []"
  shows "let window = filter (\<lambda>rcd. utc_minus_hours hours @ ''Z'' \<le> ts_of rcd)
                        (decoded loads lines);
             errors = length (filter (\<lambda>rcd. level rcd = Some ''ERROR'') window);
             rate = (of_nat errors :: rat) / of_nat (length window);
             result = generate_summary loads utc_minus_hours (Some lines) hours
         in (rate > 1 / 10 \<longrightarrow> status result = ''CRITICAL'')
          \<and> (1 / 20 < rate \<and> rate \<le> 1 / 10 \<longrightarrow> status result = ''WARNING'')
          \<and> (0 < rate \<and> rate \<le> 1 / 20 \<longrightarrow> status result = ''DEGRADED'')
          \<and> (rate = 0 \<longrightarrow> status result = ''HEALTHY'')
          \<and> (length window = 100 \<and> errors = 12 \<longrightarrow>
                error_rate result = ''12.0%'' \<and> status result = ''CRITICAL'')"
proof -
  define w where "w = filter (\<lambda>rcd. utc_minus_hours hours @ ''Z'' \<le> ts_of rcd)
                        (decoded loads lines)"
  define e where "e = length (filter (\<lambda>rcd. level rcd = Some ''ERROR'') w)"
  define g where "g = generate_summary loads utc_minus_hours (Some lines) hours"
  have ne: "w \<noteq> []" using assms unfolding w_def .
  have p: "parse_logs loads (utc_minus_hours hours @ ''Z'') False (Some lines) = w"
    unfolding w_def by (simp add: parse_logs_def parse_lines_window)
  have te: "total_errors w = e" unfolding e_def total_errors_def ..
  have r: "error_rate_of w = of_nat e / of_nat (length w)"
    using ne by (simp add: error_rate_of_def te)
  note h = generate_summary_by_rate
      [where utc_minus_hours = utc_minus_hours and hours = hours and loads = loads,
       OF p ne, folded g_def, unfolded r te]
  have final: "(of_nat e / of_nat (length w) > (1 / 10 :: rat) \<longrightarrow> status g = ''CRITICAL'')
          \<and> (1 / 20 < (of_nat e / of_nat (length w) :: rat)
               \<and> (of_nat e / of_nat (length w) :: rat) \<le> 1 / 10 \<longrightarrow> status g = ''WARNING'')
          \<and> (0 < (of_nat e / of_nat (length w) :: rat)
               \<and> (of_nat e / of_nat (length w) :: rat) \<le> 1 / 20 \<longrightarrow> status g = ''DEGRADED'')
          \<and> ((of_nat e / of_nat (length w) :: rat) = 0 \<longrightarrow> status g = ''HEALTHY'')
          \<and> (length w = 100 \<and> e = 12 \<longrightarrow>
                error_rate g = ''12.0%'' \<and> status g = ''CRITICAL'')"
    using h by blast
  from final show ?thesis unfolding Let_def g_def e_def w_def .
qed

theorem generate_summary_health_witness:
  "error_rate (generate_summary example_loads example_utc_minus
                 (Some (replicate 12 ''E1'' @ replicate 88 ''I3'')) 24) = ''12.0%''
   \<and> status (generate_summary example_loads example_utc_minus
                (Some (replicate 12 ''E1'' @ replicate 88 ''I3'')) 24) = ''CRITICAL''"
proof -
  let ?logs = "replicate 12 (example_entry ''1'' ''ERROR'' ''m'')
               @ replicate 88 (example_entry ''3'' ''INFO'' ''m'')"
  have c1: "example_utc_minus 24 @ ''Z'' \<le> dict_get (ts (example_entry ''1'' ''ERROR'' ''m'')) []"
    by (simp add: example_utc_minus_def example_entry_def dict_get_def)
  have c3: "example_utc_minus 24 @ ''Z'' \<le> dict_get (ts (example_entry ''3'' ''INFO'' ''m'')) []"
    by (simp add: example_utc_minus_def example_entry_def dict_get_def)
  have l1: "example_loads ''E1'' = Some (example_entry ''1'' ''ERROR'' ''m'')"
    by (simp add: example_loads_def)
  have l3: "example_loads ''I3'' = Some (example_entry ''3'' ''INFO'' ''m'')"
    by (simp add: example_loads_def)
  have "parse_lines example_loads (example_utc_minus 24 @ ''Z'') False
          (replicate 12 ''E1'' @ replicate 88 ''I3'' @ []) = ?logs @ []"
    by (simp only: parse_lines_replicate_keep[where loads = example_loads, OF l1 c1]
        parse_lines_replicate_keep[where loads = example_loads, OF l3 c3]
        parse_lines.simps append_assoc)
  then have w: "filter (\<lambda>rcd. example_utc_minus 24 @ ''Z'' \<le> ts_of rcd)
                  (decoded example_loads (replicate 12 ''E1'' @ replicate 88 ''I3'')) = ?logs"
    by (simp add: parse_lines_window)
  have ne: "filter (\<lambda>rcd. example_utc_minus 24 @ ''Z'' \<le> ts_of rcd)
                  (decoded example_loads (replicate 12 ''E1'' @ replicate 88 ''I3'')) \<noteq> []"
    unfolding w by simp
  have n: "length ?logs = 100" by simp
  have e: "length (filter (\<lambda>rcd. level rcd = Some ''ERROR'') ?logs) = 12"
    by (simp add: example_entry_def)
  from generate_summary_health
         [where loads = example_loads and utc_minus_hours = example_utc_minus and hours = 24
            and lines = "replicate 12 ''E1'' @ replicate 88 ''I3''",
          OF ne, unfolded Let_def w]
       n e
  show ?thesis by blast
qed


section \<open>Command-line viewer\<close>

lemma slice_from_last: "0 < n \<Longrightarrow> slice_from (- n) xs = drop (length xs - nat n) xs"
  by (auto simp: slice_from_def nat_diff_distrib' intro: arg_cong2[where f = drop])

text \<open>For a positive \<open>lines\<close> the viewer decodes the last \<open>2 * lines\<close> lines only and
  prints the last \<open>lines\<close> of the matches among them, so never more than \<open>lines\<close>
  entries.\<close>

lemma view_json_logs_window:
  assumes "0 < lines"
  shows "view_json_logs loads (Some all_lines) lines level_arg request_id_arg search_arg
     = (let window = drop (length all_lines - nat (lines * 2)) all_lines;
            entries = included_entries loads level_arg request_id_arg search_arg window
        in map Formatted (drop (length entries - nat lines) entries))"
proof -
  have "0 < lines * 2" using assms by simp
  then have a: "slice_from (- lines * 2) all_lines
                  = drop (length all_lines - nat (lines * 2)) all_lines"
    using slice_from_last[of "lines * 2" all_lines] by simp
  show ?thesis
    unfolding view_json_logs_def Let_def a using assms by (simp add: slice_from_last)
qed

lemma view_json_logs_bounded:
  assumes "0 < lines"
  shows "int (length (view_json_logs loads (Some all_lines) lines level_arg request_id_arg
                        search_arg)) \<le> lines"
proof -
  have "length (view_json_logs loads (Some all_lines) lines level_arg request_id_arg search_arg)
          \<le> nat lines"
    using assms by (simp add: view_json_logs_window Let_def)
  with assms show ?thesis by linarith
qed

text \<open>With \<open>lines = 1\<close> and the level filter ERROR, a file whose two ERROR lines
  come before its last two lines prints nothing.\<close>

lemma view_json_logs_misses_earlier_matches:
  "view_json_logs example_loads (Some [''E1'', ''E2'', ''I3'', ''I4'']) 1 (Some ''ERROR'')
     None None = []
   \<and> included_entries example_loads (Some ''ERROR'') None None [''E1'', ''E2'', ''I3'', ''I4'']
     = [example_entry ''1'' ''ERROR'' ''m'', example_entry ''2'' ''ERROR'' ''m'']"
  by (simp add: view_json_logs_def included_entries_def slice_from_def example_loads_def
      should_include_def truthy_str_def dict_get_def example_entry_def upper_def upper_char_def)

text \<open>
  C10 at \<open>lines = 0\<close>: the slices \<open>all_lines[-0:]\<close> and \<open>entries[-0:]\<close> are the whole
  lists, so every line is decoded and both entries of a two-line file are printed,
  more than the 0 asked for.
\<close>

theorem view_json_logs_zero_lines:
  "view_json_logs example_loads (Some [''E1'', ''E2'']) 0 None None None
     = [Formatted (example_entry ''1'' ''ERROR'' ''m''),
        Formatted (example_entry ''2'' ''ERROR'' ''m'')]"
  by (simp add: view_json_logs_def included_entries_def slice_from_def example_loads_def
      should_include_def truthy_str_def)

end
